theory Spec2Isabelle
  imports Complex_Main "HOL-Library.Word"
begin

unbundle bit_operations_syntax

section \<open>Data model of the TSL2561 driver\<close>

text \<open>
  The driver is the class \<open>Adafruit_TSL2561_Unified\<close>. Its source exists in two copies,
  the older \<open>Adafruit_TSL2561.cpp\<close> (called the first copy below) and the newer
  \<open>Adafruit_TSL2561_U.cpp\<close> (the second copy). The two copies agree on every function
  modelled here except \<open>init\<close>, and only the second copy has \<open>calculateRawCH0\<close>. The
  functions that reach \<open>init\<close> take the copy as their first argument.

  The target is an Arduino board: \<open>unsigned long\<close> and \<open>uint32_t\<close> are 32-bit words,
  \<open>uint16_t\<close> is a 16-bit word, \<open>uint8_t\<close> an 8-bit word, and unsigned arithmetic wraps.
\<close>

text \<open>
  Modelled from the spec: the enumerations \<open>tsl2561IntegrationTime_t\<close> and
  \<open>tsl2561Gain_t\<close> are declared in the header \<open>Adafruit_TSL2561_U.h\<close>, which is not
  among the sources. The spec's data model gives integrationTime the three values 13ms,
  101ms, 402ms and gain the two values 1x, 16x.
\<close>

datatype tsl2561IntegrationTime_t =
    TSL2561_INTEGRATIONTIME_13MS
  | TSL2561_INTEGRATIONTIME_101MS
  | TSL2561_INTEGRATIONTIME_402MS

datatype tsl2561Gain_t = TSL2561_GAIN_1X | TSL2561_GAIN_16X

text \<open>
  The package variant is chosen at compile time by \<open>#ifdef TSL2561_PACKAGE_CS\<close>; here
  it is an argument of the functions that branch on it.
\<close>

datatype package = PACKAGE_CS | PACKAGE_T_FN_CL

text \<open>
  One coefficient table of the lux computation: the macros \<open>TSL2561_LUX_K1C\<close> ..
  \<open>TSL2561_LUX_M8C\<close> for the CS package and \<open>TSL2561_LUX_K1T\<close> .. \<open>TSL2561_LUX_M8T\<close>
  for the others. They are compared with and multiplied by \<open>unsigned long\<close> values, so
  they are kept as 32-bit words.
\<close>

record lux_coeffs =
  LUX_K1 :: "32 word"
  LUX_B1 :: "32 word"
  LUX_M1 :: "32 word"
  LUX_K2 :: "32 word"
  LUX_B2 :: "32 word"
  LUX_M2 :: "32 word"
  LUX_K3 :: "32 word"
  LUX_B3 :: "32 word"
  LUX_M3 :: "32 word"
  LUX_K4 :: "32 word"
  LUX_B4 :: "32 word"
  LUX_M4 :: "32 word"
  LUX_K5 :: "32 word"
  LUX_B5 :: "32 word"
  LUX_M5 :: "32 word"
  LUX_K6 :: "32 word"
  LUX_B6 :: "32 word"
  LUX_M6 :: "32 word"
  LUX_K7 :: "32 word"
  LUX_B7 :: "32 word"
  LUX_M7 :: "32 word"
  LUX_K8 :: "32 word"
  LUX_B8 :: "32 word"
  LUX_M8 :: "32 word"

text \<open>
  The macros of the absent header that the modelled functions use. Their values are
  not in the sources, so every function takes the header as its first argument and
  every theorem holds for all values of the macros, or says which relation between
  them it needs.
\<close>

record tsl2561_header =
  TSL2561_CLIPPING_13MS :: "16 word"
  TSL2561_CLIPPING_101MS :: "16 word"
  TSL2561_CLIPPING_402MS :: "16 word"
  TSL2561_AGC_THI_13MS :: "16 word"
  TSL2561_AGC_TLO_13MS :: "16 word"
  TSL2561_AGC_THI_101MS :: "16 word"
  TSL2561_AGC_TLO_101MS :: "16 word"
  TSL2561_AGC_THI_402MS :: "16 word"
  TSL2561_AGC_TLO_402MS :: "16 word"
  TSL2561_LUX_LUXSCALE :: nat
  TSL2561_LUX_RATIOSCALE :: nat
  TSL2561_LUX_CHSCALE :: nat
  TSL2561_LUX_CHSCALE_TINT0 :: "32 word"
  TSL2561_LUX_CHSCALE_TINT1 :: "32 word"
  LUX_TABLE_CS :: lux_coeffs
  LUX_TABLE_T :: lux_coeffs

text \<open>
  What the driver puts on the two-wire bus, one constructor per helper call of the
  source: \<open>_i2c->begin()\<close>, \<open>enable()\<close>, \<open>disable()\<close>, the \<open>write8\<close> of the timing
  register with the value \<open>time | gain\<close>, the \<open>read8\<close> of the ID register, the
  \<open>delay\<close> of \<open>getData\<close>, and its two \<open>read16\<close> calls.
\<close>

datatype bus_op =
    WireBegin
  | PowerOn
  | PowerOff
  | WriteTiming tsl2561IntegrationTime_t tsl2561Gain_t
  | ReadID
  | Delay tsl2561IntegrationTime_t
  | ReadChan0
  | ReadChan1

text \<open>
  The register transport answers reads. \<open>id_byte tr n\<close> is the byte the \<open>n\<close>-th read
  of the ID register returns, \<open>channels tr n\<close> the two words that the \<open>n\<close>-th call of
  \<open>getData\<close> reads from channel 0 and channel 1. Any sequence of answers is a transport.
\<close>

record transport =
  id_byte :: "nat \<Rightarrow> 8 word"
  channels :: "nat \<Rightarrow> 16 word \<times> 16 word"

text \<open>
  The member variables of the object, followed by the record of its bus traffic: the
  operations issued so far, the number of ID reads and the number of \<open>getData\<close> calls.
\<close>

record tsl2561 =
  tsl2561Initialised :: bool
  tsl2561AutoGain :: bool
  tsl2561IntegrationTime :: tsl2561IntegrationTime_t
  tsl2561Gain :: tsl2561Gain_t
  allowSleep :: bool
  bus_log :: "bus_op list"
  id_reads :: nat
  acquisitions :: nat

text \<open>The constructor: not initialised, no auto-gain, 13 ms, gain 1x, nothing on the bus.\<close>

definition Adafruit_TSL2561_Unified :: "bool \<Rightarrow> tsl2561" where
  "Adafruit_TSL2561_Unified sleep =
     \<lparr> tsl2561Initialised = False,
       tsl2561AutoGain = False,
       tsl2561IntegrationTime = TSL2561_INTEGRATIONTIME_13MS,
       tsl2561Gain = TSL2561_GAIN_1X,
       allowSleep = sleep,
       bus_log = [],
       id_reads = 0,
       acquisitions = 0 \<rparr>"

section \<open>The lux conversion: calculateLux\<close>

text \<open>The first \<open>switch\<close> of \<open>calculateLux\<close>: the clipping threshold, a \<open>uint16_t\<close>.\<close>

definition clipThreshold :: "tsl2561_header \<Rightarrow> tsl2561IntegrationTime_t \<Rightarrow> 16 word" where
  "clipThreshold h it =
     (case it of
        TSL2561_INTEGRATIONTIME_13MS \<Rightarrow> TSL2561_CLIPPING_13MS h
      | TSL2561_INTEGRATIONTIME_101MS \<Rightarrow> TSL2561_CLIPPING_101MS h
      | _ \<Rightarrow> TSL2561_CLIPPING_402MS h)"

text \<open>
  The second \<open>switch\<close> and the gain correction \<open>if (!_tsl2561Gain) chScale = chScale << 4\<close>.
  Modelled from the spec: the enumerator values are in the absent header; the spec's
  step 2 of the conversion says the shift is applied when the gain is 1x, so
  \<open>!_tsl2561Gain\<close> is the test for \<open>TSL2561_GAIN_1X\<close>.
\<close>

definition chScale_of :: "tsl2561_header \<Rightarrow> tsl2561IntegrationTime_t \<Rightarrow> tsl2561Gain_t \<Rightarrow> 32 word" where
  "chScale_of h it g =
     (let chScale =
        (case it of
           TSL2561_INTEGRATIONTIME_13MS \<Rightarrow> TSL2561_LUX_CHSCALE_TINT0 h
         | TSL2561_INTEGRATIONTIME_101MS \<Rightarrow> TSL2561_LUX_CHSCALE_TINT1 h
         | _ \<Rightarrow> push_bit (TSL2561_LUX_CHSCALE h) 1)
      in if g = TSL2561_GAIN_1X then push_bit 4 chScale else chScale)"

text \<open>\<open>channel = (raw * chScale) >> TSL2561_LUX_CHSCALE\<close>, in \<open>unsigned long\<close>.\<close>

definition scale_channel :: "tsl2561_header \<Rightarrow> 32 word \<Rightarrow> 16 word \<Rightarrow> 32 word" where
  "scale_channel h chScale raw = drop_bit (TSL2561_LUX_CHSCALE h) (ucast raw * chScale)"

text \<open>
  The ratio of the scaled channels:
  \<open>ratio1 = 0; if (channel0 != 0) ratio1 = (channel1 << (RATIOSCALE+1)) / channel0;
  ratio = (ratio1 + 1) >> 1\<close>.
\<close>

definition lux_ratio :: "tsl2561_header \<Rightarrow> 32 word \<Rightarrow> 32 word \<Rightarrow> 32 word" where
  "lux_ratio h channel0 channel1 =
     (let ratio1 =
        (if channel0 \<noteq> 0
         then push_bit (TSL2561_LUX_RATIOSCALE h + 1) channel1 div channel0
         else 0)
      in drop_bit 1 (ratio1 + 1))"

text \<open>
  The chain of eight \<open>if\<close>/\<open>else if\<close> that assigns \<open>b\<close> and \<open>m\<close>. The chain has no
  final \<open>else\<close>: when no condition holds the two variables stay uninitialised, which
  is the value \<open>None\<close> here.
\<close>

definition select_bm :: "lux_coeffs \<Rightarrow> 32 word \<Rightarrow> (32 word \<times> 32 word) option" where
  "select_bm t ratio =
     (if 0 \<le> ratio \<and> ratio \<le> LUX_K1 t then Some (LUX_B1 t, LUX_M1 t)
      else if ratio \<le> LUX_K2 t then Some (LUX_B2 t, LUX_M2 t)
      else if ratio \<le> LUX_K3 t then Some (LUX_B3 t, LUX_M3 t)
      else if ratio \<le> LUX_K4 t then Some (LUX_B4 t, LUX_M4 t)
      else if ratio \<le> LUX_K5 t then Some (LUX_B5 t, LUX_M5 t)
      else if ratio \<le> LUX_K6 t then Some (LUX_B6 t, LUX_M6 t)
      else if ratio \<le> LUX_K7 t then Some (LUX_B7 t, LUX_M7 t)
      else if ratio > LUX_K8 t then Some (LUX_B8 t, LUX_M8 t)
      else None)"

definition lux_table :: "tsl2561_header \<Rightarrow> package \<Rightarrow> lux_coeffs" where
  "lux_table h pkg = (case pkg of PACKAGE_CS \<Rightarrow> LUX_TABLE_CS h | PACKAGE_T_FN_CL \<Rightarrow> LUX_TABLE_T h)"

text \<open>
  The end of \<open>calculateLux\<close>, from \<open>temp = ((channel0 * b) - (channel1 * m))\<close> to
  \<open>lux = temp >> TSL2561_LUX_LUXSCALE\<close>. \<open>temp\<close> is an \<open>unsigned long\<close>: the subtraction
  wraps, and the test \<open>temp < 0\<close> is the source's, on that unsigned value.
\<close>

definition lux_of_temp :: "tsl2561_header \<Rightarrow> 32 word \<Rightarrow> 32 word \<Rightarrow> 32 word \<Rightarrow> 32 word \<Rightarrow> 32 word" where
  "lux_of_temp h channel0 channel1 b m =
     (let temp = channel0 * b - channel1 * m;
          temp = (if temp < 0 then 0 else temp);
          temp = temp + push_bit (TSL2561_LUX_LUXSCALE h - 1) 1
      in drop_bit (TSL2561_LUX_LUXSCALE h) temp)"

datatype lux_error = Uninitialised_b_m

definition calculateLux ::
  "tsl2561_header \<Rightarrow> package \<Rightarrow> tsl2561 \<Rightarrow> 16 word \<Rightarrow> 16 word \<Rightarrow> lux_error + 32 word" where
  "calculateLux h pkg d broadband ir =
     (let clip = clipThreshold h (tsl2561IntegrationTime d) in
      if broadband > clip \<or> ir > clip then Inr 65536
      else
        let chScale = chScale_of h (tsl2561IntegrationTime d) (tsl2561Gain d);
            channel0 = scale_channel h chScale broadband;
            channel1 = scale_channel h chScale ir;
            ratio = lux_ratio h channel0 channel1
        in case select_bm (lux_table h pkg) ratio of
             None \<Rightarrow> Inl Uninitialised_b_m
           | Some (b, m) \<Rightarrow> Inr (lux_of_temp h channel0 channel1 b m))"

section \<open>A concrete header\<close>

text \<open>
  An instance of the header, for evaluating the functions on concrete inputs: the
  scales \<open>2^14\<close>, \<open>2^9\<close>, \<open>2^10\<close> and the coefficient tables of the reference lux
  calculation in the TSL2561 datasheet, whose formulae the comments of
  \<open>calculateRawCH0\<close> quote (for the CS package \<open>0.00338 * CH0 - 0.00260 * CH1\<close> up to
  the ratio 1.30, that is \<open>B7 = 0x37\<close>, \<open>M7 = 0x2b\<close>, \<open>K7 = K8 = 0x29a\<close> in fixed
  point). No theorem about all headers depends on these values.
\<close>

definition datasheet_table_T :: lux_coeffs where
  "datasheet_table_T =
     \<lparr> LUX_K1 = 0x0040, LUX_B1 = 0x01f2, LUX_M1 = 0x01be,
       LUX_K2 = 0x0080, LUX_B2 = 0x0214, LUX_M2 = 0x02d1,
       LUX_K3 = 0x00c0, LUX_B3 = 0x023f, LUX_M3 = 0x037b,
       LUX_K4 = 0x0100, LUX_B4 = 0x0270, LUX_M4 = 0x03fe,
       LUX_K5 = 0x0138, LUX_B5 = 0x016f, LUX_M5 = 0x01fc,
       LUX_K6 = 0x019a, LUX_B6 = 0x00d2, LUX_M6 = 0x00fb,
       LUX_K7 = 0x029a, LUX_B7 = 0x0018, LUX_M7 = 0x0012,
       LUX_K8 = 0x029a, LUX_B8 = 0x0000, LUX_M8 = 0x0000 \<rparr>"

definition datasheet_table_CS :: lux_coeffs where
  "datasheet_table_CS =
     \<lparr> LUX_K1 = 0x0043, LUX_B1 = 0x0204, LUX_M1 = 0x01ad,
       LUX_K2 = 0x0085, LUX_B2 = 0x0228, LUX_M2 = 0x02c1,
       LUX_K3 = 0x00c8, LUX_B3 = 0x0253, LUX_M3 = 0x0363,
       LUX_K4 = 0x010a, LUX_B4 = 0x0282, LUX_M4 = 0x03df,
       LUX_K5 = 0x014d, LUX_B5 = 0x0177, LUX_M5 = 0x01dd,
       LUX_K6 = 0x019a, LUX_B6 = 0x0101, LUX_M6 = 0x0127,
       LUX_K7 = 0x029a, LUX_B7 = 0x0037, LUX_M7 = 0x002b,
       LUX_K8 = 0x029a, LUX_B8 = 0x0000, LUX_M8 = 0x0000 \<rparr>"

definition datasheet_header :: tsl2561_header where
  "datasheet_header =
     \<lparr> TSL2561_CLIPPING_13MS = 4900,
       TSL2561_CLIPPING_101MS = 37000,
       TSL2561_CLIPPING_402MS = 65000,
       TSL2561_AGC_THI_13MS = 4850,
       TSL2561_AGC_TLO_13MS = 100,
       TSL2561_AGC_THI_101MS = 36000,
       TSL2561_AGC_TLO_101MS = 200,
       TSL2561_AGC_THI_402MS = 63000,
       TSL2561_AGC_TLO_402MS = 500,
       TSL2561_LUX_LUXSCALE = 14,
       TSL2561_LUX_RATIOSCALE = 9,
       TSL2561_LUX_CHSCALE = 10,
       TSL2561_LUX_CHSCALE_TINT0 = 0x7517,
       TSL2561_LUX_CHSCALE_TINT1 = 0x0fe7,
       LUX_TABLE_CS = datasheet_table_CS,
       LUX_TABLE_T = datasheet_table_T \<rparr>"

section \<open>Bus helpers, initialisation and the setters\<close>

definition bus :: "bus_op \<Rightarrow> tsl2561 \<Rightarrow> tsl2561" where
  "bus op d = d\<lparr>bus_log := bus_log d @ [op]\<rparr>"

text \<open>\<open>enable\<close> and \<open>disable\<close> write the power-on and power-off constants.\<close>

definition enable :: "tsl2561 \<Rightarrow> tsl2561" where
  "enable d = bus PowerOn d"

definition disable :: "tsl2561 \<Rightarrow> tsl2561" where
  "disable d = bus PowerOff d"

text \<open>
  \<open>setIntegrationTime\<close> and \<open>setGain\<close> after their guard
  \<open>if (!_tsl2561Initialised) begin()\<close>: power on, write the timing register, store the
  new value, power off if sleeping is allowed.
\<close>

definition setIntegrationTime_body :: "tsl2561IntegrationTime_t \<Rightarrow> tsl2561 \<Rightarrow> tsl2561" where
  "setIntegrationTime_body time d =
     (let d = enable d;
          d = bus (WriteTiming time (tsl2561Gain d)) d;
          d = d\<lparr>tsl2561IntegrationTime := time\<rparr>
      in if allowSleep d then disable d else d)"

definition setGain_body :: "tsl2561Gain_t \<Rightarrow> tsl2561 \<Rightarrow> tsl2561" where
  "setGain_body gain d =
     (let d = enable d;
          d = bus (WriteTiming (tsl2561IntegrationTime d) gain) d;
          d = d\<lparr>tsl2561Gain := gain\<rparr>
      in if allowSleep d then disable d else d)"

text \<open>
  The two copies of the source differ in one condition of \<open>init\<close>: after
  \<open>x = read8(TSL2561_REGISTER_ID)\<close> the first copy has \<open>if (!(x & 0x0A)) return false\<close>
  and the second \<open>if (x & 0x05) return false\<close>.
\<close>

datatype source_copy = First_copy | Second_copy

definition probe_fails :: "source_copy \<Rightarrow> 8 word \<Rightarrow> bool" where
  "probe_fails c x =
     (case c of
        First_copy \<Rightarrow> \<not> (x AND 0x0A \<noteq> 0)
      | Second_copy \<Rightarrow> x AND 0x05 \<noteq> 0)"

text \<open>
  \<open>init\<close> reads the ID register, returns \<open>false\<close> on a mismatch, and otherwise sets
  \<open>_tsl2561Initialised\<close> and calls the two setters. The flag is set before the
  setters are called, so their guard is false there and they run their bodies only.
\<close>

definition init :: "source_copy \<Rightarrow> transport \<Rightarrow> tsl2561 \<Rightarrow> bool \<times> tsl2561" where
  "init c tr d =
     (let x = id_byte tr (id_reads d);
          d = (bus ReadID d)\<lparr>id_reads := id_reads d + 1\<rparr>
      in if probe_fails c x then (False, d)
         else
           let d = d\<lparr>tsl2561Initialised := True\<rparr>;
               d = setIntegrationTime_body (tsl2561IntegrationTime d) d;
               d = setGain_body (tsl2561Gain d) d;
               d = (if allowSleep d then disable d else d)
           in (True, d))"

text \<open>\<open>begin\<close>: start the bus, then \<open>init\<close>.\<close>

definition begin_sensor :: "source_copy \<Rightarrow> transport \<Rightarrow> tsl2561 \<Rightarrow> bool \<times> tsl2561" where
  "begin_sensor c tr d = init c tr (bus WireBegin d)"

text \<open>The guard \<open>if (!_tsl2561Initialised) begin();\<close>, whose result is ignored.\<close>

definition ensure_begun :: "source_copy \<Rightarrow> transport \<Rightarrow> tsl2561 \<Rightarrow> tsl2561" where
  "ensure_begun c tr d = (if \<not> tsl2561Initialised d then snd (begin_sensor c tr d) else d)"

definition enableAutoRange :: "bool \<Rightarrow> tsl2561 \<Rightarrow> tsl2561" where
  "enableAutoRange en d = d\<lparr>tsl2561AutoGain := en\<rparr>"

definition setIntegrationTime ::
  "source_copy \<Rightarrow> transport \<Rightarrow> tsl2561IntegrationTime_t \<Rightarrow> tsl2561 \<Rightarrow> tsl2561" where
  "setIntegrationTime c tr time d = setIntegrationTime_body time (ensure_begun c tr d)"

definition setGain :: "source_copy \<Rightarrow> transport \<Rightarrow> tsl2561Gain_t \<Rightarrow> tsl2561 \<Rightarrow> tsl2561" where
  "setGain c tr gain d = setGain_body gain (ensure_begun c tr d)"

section \<open>Acquisition: getData and getLuminosity\<close>

text \<open>
  \<open>getData\<close>: power on, wait for the conversion, read channel 0 and channel 1, power
  off if sleeping is allowed. Each call takes the next pair of the transport.
\<close>

definition getData :: "transport \<Rightarrow> tsl2561 \<Rightarrow> (16 word \<times> 16 word) \<times> tsl2561" where
  "getData tr d =
     (let reading = channels tr (acquisitions d);
          d = enable d;
          d = bus (Delay (tsl2561IntegrationTime d)) d;
          d = bus ReadChan0 d;
          d = bus ReadChan1 d;
          d = d\<lparr>acquisitions := acquisitions d + 1\<rparr>;
          d = (if allowSleep d then disable d else d)
      in (reading, d))"

text \<open>The \<open>switch\<close> at the head of the loop body: \<open>(_hi, _lo)\<close> for the integration time.\<close>

definition agc_thresholds :: "tsl2561_header \<Rightarrow> tsl2561IntegrationTime_t \<Rightarrow> 16 word \<times> 16 word" where
  "agc_thresholds h it =
     (case it of
        TSL2561_INTEGRATIONTIME_13MS \<Rightarrow> (TSL2561_AGC_THI_13MS h, TSL2561_AGC_TLO_13MS h)
      | TSL2561_INTEGRATIONTIME_101MS \<Rightarrow> (TSL2561_AGC_THI_101MS h, TSL2561_AGC_TLO_101MS h)
      | _ \<Rightarrow> (TSL2561_AGC_THI_402MS h, TSL2561_AGC_TLO_402MS h))"

text \<open>
  The variables of the \<open>do ... while (!valid)\<close> loop: the object, the flags
  \<open>_agcCheck\<close> and \<open>valid\<close>, and what has been stored through the pointers
  \<open>broadband\<close> and \<open>ir\<close> (\<open>None\<close> while nothing has been stored).
\<close>

record agc_state =
  sensor :: tsl2561
  agcCheck :: bool
  valid :: bool
  stored :: "(16 word \<times> 16 word) option"

text \<open>One pass through the loop body.\<close>

definition agc_body :: "source_copy \<Rightarrow> tsl2561_header \<Rightarrow> transport \<Rightarrow> agc_state \<Rightarrow> agc_state" where
  "agc_body c h tr s =
     (let (hi, lo) = agc_thresholds h (tsl2561IntegrationTime (sensor s));
          ((b, ir), d) = getData tr (sensor s)
      in if \<not> agcCheck s then
           if b < lo \<and> tsl2561Gain d = TSL2561_GAIN_1X then
             let d = setGain c tr TSL2561_GAIN_16X d;
                 ((b, ir), d) = getData tr d
             in s\<lparr>sensor := d, agcCheck := True\<rparr>
           else if b > hi \<and> tsl2561Gain d = TSL2561_GAIN_16X then
             let d = setGain c tr TSL2561_GAIN_1X d;
                 ((b, ir), d) = getData tr d
             in s\<lparr>sensor := d, agcCheck := True\<rparr>
           else s\<lparr>sensor := d, stored := Some (b, ir), valid := True\<rparr>
         else s\<lparr>sensor := d, stored := Some (b, ir), valid := True\<rparr>)"

function agc_loop :: "source_copy \<Rightarrow> tsl2561_header \<Rightarrow> transport \<Rightarrow> agc_state \<Rightarrow> agc_state" where
  "agc_loop c h tr s =
     (let s' = agc_body c h tr s in if \<not> valid s' then agc_loop c h tr s' else s')"
  by pat_completeness auto
termination
  by (relation "measure (\<lambda>(c, h, tr, s). if agcCheck s then 0 else 1)")
     (auto simp: agc_body_def Let_def case_prod_beta split: if_splits)

declare agc_loop.simps [simp del]

text \<open>
  \<open>getLuminosity\<close> returns what it has stored through its two pointers, and the object.
\<close>

definition getLuminosity ::
  "source_copy \<Rightarrow> tsl2561_header \<Rightarrow> transport \<Rightarrow> tsl2561 \<Rightarrow> (16 word \<times> 16 word) option \<times> tsl2561" where
  "getLuminosity c h tr d =
     (let d = ensure_begun c tr d
      in if \<not> tsl2561AutoGain d then
           let (reading, d) = getData tr d in (Some reading, d)
         else
           let s = agc_loop c h tr \<lparr>sensor = d, agcCheck = False, valid = False, stored = None\<rparr>
           in (stored s, sensor s))"

section \<open>The inverse approximation: calculateRawCH0\<close>

text \<open>
  The argument \<open>approxChRatio\<close> is a \<open>float\<close>. A value of that type is a finite binary
  fraction \<open>m * 2^e\<close> with a 24-bit significand, an infinity, or a NaN.
\<close>

datatype float32 = Finite int int | PlusInf | MinusInf | NaN

definition float_val :: "int \<Rightarrow> int \<Rightarrow> real" where
  "float_val m e = (if 0 \<le> e then of_int m * 2 ^ nat e else of_int m / 2 ^ nat (- e))"

definition is_float32 :: "float32 \<Rightarrow> bool" where
  "is_float32 x =
     (case x of Finite m e \<Rightarrow> \<bar>m\<bar> < 2 ^ 24 \<and> - 149 \<le> e \<and> e \<le> 104 | _ \<Rightarrow> True)"

text \<open>
  \<open>x > c\<close> for a \<open>float\<close> \<open>x\<close> and a constant \<open>c\<close>: the comparison is exact on the
  values, an infinity compares by its sign, and every comparison with a NaN is false.
\<close>

definition float_gt :: "float32 \<Rightarrow> real \<Rightarrow> bool" where
  "float_gt x c =
     (case x of Finite m e \<Rightarrow> c < float_val m e | PlusInf \<Rightarrow> True | MinusInf \<Rightarrow> False | NaN \<Rightarrow> False)"

text \<open>
  The floating-point operations of \<open>calculateRawCH0\<close> other than comparison, as
  given by the compiler and the board: \<open>double_literal c\<close> is the value that the
  decimal constant \<open>c\<close> of the source denotes; \<open>affine a b x\<close> is the \<open>float\<close> stored by
  \<open>divisor = (a - b * approxChRatio)\<close>; \<open>affine_pow a b x p\<close> the one stored by
  \<open>divisor = (a - b * pow(approxChRatio, p))\<close>; \<open>quotient_ulong n y\<close> is
  \<open>(unsigned long)(luxScale / divisor)\<close>.
\<close>

record fpu =
  double_literal :: "real \<Rightarrow> real"
  affine :: "real \<Rightarrow> real \<Rightarrow> float32 \<Rightarrow> float32"
  affine_pow :: "real \<Rightarrow> real \<Rightarrow> float32 \<Rightarrow> real \<Rightarrow> float32"
  quotient_ulong :: "32 word \<Rightarrow> float32 \<Rightarrow> 32 word"

text \<open>
  \<open>calculateRawCH0\<close>. In the CS branch of the \<open>#ifdef\<close> the divisor is computed and
  never used: \<open>ch0Scale\<close> keeps its initial value 0. \<open>lux << TSL2561_LUX_CHSCALE\<close> is
  taken in 32 bits.
\<close>

definition calculateRawCH0 ::
  "fpu \<Rightarrow> tsl2561_header \<Rightarrow> package \<Rightarrow> tsl2561 \<Rightarrow> 16 word \<Rightarrow> float32 \<Rightarrow> 32 word" where
  "calculateRawCH0 fp h pkg d lux approxChRatio =
     (let luxScale = push_bit (TSL2561_LUX_CHSCALE h) (ucast lux :: 32 word);
          exceeds = (\<lambda>c. float_gt approxChRatio (double_literal fp c));
          chScale = chScale_of h (tsl2561IntegrationTime d) (tsl2561Gain d)
      in case pkg of
           PACKAGE_CS \<Rightarrow>
             if exceeds (130 / 100) then 0xFFFF
             else
               let divisor =
                     (if exceeds (80 / 100) then affine fp (338 / 100000) (260 / 100000) approxChRatio
                      else if exceeds (65 / 100) then affine fp (157 / 10000) (180 / 10000) approxChRatio
                      else if exceeds (52 / 100) then affine fp (229 / 10000) (291 / 10000) approxChRatio
                      else affine_pow fp (315 / 10000) (593 / 10000) approxChRatio (14 / 10));
                   ch0Scale = 0
               in ch0Scale div chScale
         | PACKAGE_T_FN_CL \<Rightarrow>
             if exceeds (130 / 100) then 0xFFFF
             else
               let divisor =
                     (if exceeds (80 / 100) then affine fp (146 / 100000) (112 / 100000) approxChRatio
                      else if exceeds (61 / 100) then affine fp (128 / 10000) (153 / 10000) approxChRatio
                      else if exceeds (50 / 100) then affine fp (224 / 10000) (31 / 1000) approxChRatio
                      else affine_pow fp (304 / 10000) (62 / 1000) approxChRatio (14 / 10))
               in if float_gt divisor 0
                  then quotient_ulong fp luxScale divisor div chScale
                  else 0xFFFF)"

text \<open>
  The two values that the constant \<open>1.30\<close> can denote: the nearest 64-bit double, and
  the nearest 32-bit float on boards where \<open>double\<close> is 32 bits wide.
\<close>

definition double_1_30 :: real where
  "double_1_30 = 5854679515581645 / 2 ^ 52"

definition single_1_30 :: real where
  "single_1_30 = 10905190 / 2 ^ 23"

text \<open>
  An instance for evaluation: constants rounded to 64-bit doubles where the value is
  needed below, and an arithmetic unit that answers NaN and 0. The sentinel branch
  does no arithmetic, which is all that is evaluated with it.
\<close>

definition sample_fpu :: fpu where
  "sample_fpu =
     \<lparr> double_literal = (\<lambda>c. if c = 130 / 100 then double_1_30 else c),
       affine = (\<lambda>a b x. NaN),
       affine_pow = (\<lambda>a b x p. NaN),
       quotient_ulong = (\<lambda>n y. 0) \<rparr>"

section \<open>The specification's reading of the auto-gain policy and of the table lookup\<close>

text \<open>
  The spec's auto-gain policy on the first reading: below the low threshold at gain 1x
  switch to 16x, above the high threshold at gain 16x switch to 1x, otherwise no
  adjustment. The first reading is the next pair of the transport.
\<close>

definition spec_gain_adjustment ::
  "tsl2561_header \<Rightarrow> transport \<Rightarrow> tsl2561 \<Rightarrow> tsl2561Gain_t option" where
  "spec_gain_adjustment h tr d =
     (let (hi, lo) = agc_thresholds h (tsl2561IntegrationTime d);
          (b, ir) = channels tr (acquisitions d)
      in if b < lo \<and> tsl2561Gain d = TSL2561_GAIN_1X then Some TSL2561_GAIN_16X
         else if b > hi \<and> tsl2561Gain d = TSL2561_GAIN_16X then Some TSL2561_GAIN_1X
         else None)"

text \<open>
  The spec's table lookup: an ordered table of brackets, searched for the first entry
  whose condition the ratio meets.
\<close>

definition spec_brackets :: "lux_coeffs \<Rightarrow> ((32 word \<Rightarrow> bool) \<times> 32 word \<times> 32 word) list" where
  "spec_brackets t =
     [(\<lambda>r. r \<le> LUX_K1 t, LUX_B1 t, LUX_M1 t),
      (\<lambda>r. r \<le> LUX_K2 t, LUX_B2 t, LUX_M2 t),
      (\<lambda>r. r \<le> LUX_K3 t, LUX_B3 t, LUX_M3 t),
      (\<lambda>r. r \<le> LUX_K4 t, LUX_B4 t, LUX_M4 t),
      (\<lambda>r. r \<le> LUX_K5 t, LUX_B5 t, LUX_M5 t),
      (\<lambda>r. r \<le> LUX_K6 t, LUX_B6 t, LUX_M6 t),
      (\<lambda>r. r \<le> LUX_K7 t, LUX_B7 t, LUX_M7 t),
      (\<lambda>r. r > LUX_K8 t, LUX_B8 t, LUX_M8 t)]"

fun spec_first_match :: "(('a \<Rightarrow> bool) \<times> 'b) list \<Rightarrow> 'a \<Rightarrow> 'b option" where
  "spec_first_match [] r = None"
| "spec_first_match ((p, v) # bs) r = (if p r then Some v else spec_first_match bs r)"

text \<open>
  The brackets as intervals of the ratio: bracket 0 is \<open>[0, K1]\<close>, bracket \<open>i\<close> for
  \<open>0 < i < 7\<close> is \<open>(K\<^sub>i, K\<^sub>i\<^sub>+\<^sub>1]\<close>, bracket 7 is everything above \<open>K8\<close>.
\<close>

definition breakpoints :: "lux_coeffs \<Rightarrow> 32 word list" where
  "breakpoints t =
     [LUX_K1 t, LUX_K2 t, LUX_K3 t, LUX_K4 t, LUX_K5 t, LUX_K6 t, LUX_K7 t, LUX_K8 t]"

definition coefficients :: "lux_coeffs \<Rightarrow> (32 word \<times> 32 word) list" where
  "coefficients t =
     [(LUX_B1 t, LUX_M1 t), (LUX_B2 t, LUX_M2 t), (LUX_B3 t, LUX_M3 t), (LUX_B4 t, LUX_M4 t),
      (LUX_B5 t, LUX_M5 t), (LUX_B6 t, LUX_M6 t), (LUX_B7 t, LUX_M7 t), (LUX_B8 t, LUX_M8 t)]"

definition in_bracket :: "lux_coeffs \<Rightarrow> nat \<Rightarrow> 32 word \<Rightarrow> bool" where
  "in_bracket t i r =
     (if i = 0 then r \<le> breakpoints t ! 0
      else if i < 7 then breakpoints t ! (i - 1) < r \<and> r \<le> breakpoints t ! i
      else if i = 7 then breakpoints t ! 7 < r
      else False)"

section \<open>Concrete inputs and auxiliary functions\<close>

text \<open>A sensor set to 402 ms and gain 16x, the configuration with no channel scaling.\<close>

definition sensor_402ms_16x :: tsl2561 where
  "sensor_402ms_16x =
     (Adafruit_TSL2561_Unified True)
       \<lparr>tsl2561IntegrationTime := TSL2561_INTEGRATIONTIME_402MS,
        tsl2561Gain := TSL2561_GAIN_16X\<rparr>"

text \<open>The number of the first condition of the chain that the ratio meets.\<close>

definition bracket_index :: "lux_coeffs \<Rightarrow> 32 word \<Rightarrow> nat" where
  "bracket_index t r =
     (if r \<le> LUX_K1 t then 0 else if r \<le> LUX_K2 t then 1 else if r \<le> LUX_K3 t then 2
      else if r \<le> LUX_K4 t then 3 else if r \<le> LUX_K5 t then 4 else if r \<le> LUX_K6 t then 5
      else if r \<le> LUX_K7 t then 6 else 7)"

text \<open>
  Three transports. Each answers the ID read with \<open>0x50\<close>. The first reports a dim
  scene, then brighter readings; the second a bright scene, then dimmer readings; the
  third always the same reading.
\<close>

definition dim_then_bright :: transport where
  "dim_then_bright =
     \<lparr> id_byte = (\<lambda>n. 0x50),
       channels = (\<lambda>n. if n = 0 then (50, 10) else if n = 1 then (700, 140) else (800, 160)) \<rparr>"

definition bright_then_dim :: transport where
  "bright_then_dim =
     \<lparr> id_byte = (\<lambda>n. 0x50),
       channels = (\<lambda>n. if n = 0 then (5000, 900) else if n = 1 then (310, 60) else (300, 55)) \<rparr>"

definition steady_light :: transport where
  "steady_light = \<lparr> id_byte = (\<lambda>n. 0x50), channels = (\<lambda>n. (1000, 200)) \<rparr>"

text \<open>A fresh sensor (13 ms, gain 1x) with auto-gain enabled, and the same at gain 16x.\<close>

definition auto_sensor :: tsl2561 where
  "auto_sensor = (Adafruit_TSL2561_Unified True)\<lparr>tsl2561AutoGain := True\<rparr>"

definition auto_sensor_16x :: tsl2561 where
  "auto_sensor_16x = auto_sensor\<lparr>tsl2561Gain := TSL2561_GAIN_16X\<rparr>"

text \<open>
  Two more transports: one whose first reading is 300, one whose first reading is
  36500. And auto-gain sensors at the other integration times.
\<close>

definition dusk_light :: transport where
  "dusk_light =
     \<lparr> id_byte = (\<lambda>n. 0x50),
       channels = (\<lambda>n. if n = 0 then (300, 60) else if n = 1 then (4000, 800) else (4100, 820)) \<rparr>"

definition glare :: transport where
  "glare =
     \<lparr> id_byte = (\<lambda>n. 0x50),
       channels = (\<lambda>n. if n = 0 then (36500, 7000) else if n = 1 then (2300, 440) else (2290, 430)) \<rparr>"

definition auto_sensor_402ms :: tsl2561 where
  "auto_sensor_402ms = auto_sensor\<lparr>tsl2561IntegrationTime := TSL2561_INTEGRATIONTIME_402MS\<rparr>"

definition auto_sensor_402ms_16x :: tsl2561 where
  "auto_sensor_402ms_16x = auto_sensor_402ms\<lparr>tsl2561Gain := TSL2561_GAIN_16X\<rparr>"

definition auto_sensor_101ms_16x :: tsl2561 where
  "auto_sensor_101ms_16x =
     auto_sensor_16x\<lparr>tsl2561IntegrationTime := TSL2561_INTEGRATIONTIME_101MS\<rparr>"

text \<open>Sensors at 13 ms and at 101 ms, gain 1x.\<close>

definition sensor_13ms :: tsl2561 where
  "sensor_13ms = Adafruit_TSL2561_Unified True"

definition sensor_101ms :: tsl2561 where
  "sensor_101ms = sensor_13ms\<lparr>tsl2561IntegrationTime := TSL2561_INTEGRATIONTIME_101MS\<rparr>"

section \<open>Properties of calculateLux\<close>

lemmas calculateLux_defs =
  calculateLux_def clipThreshold_def chScale_of_def scale_channel_def lux_ratio_def
  select_bm_def lux_table_def lux_of_temp_def

lemmas datasheet_defs = datasheet_header_def datasheet_table_CS_def datasheet_table_T_def

lemmas sensor_402ms_16x_defs = sensor_402ms_16x_def Adafruit_TSL2561_Unified_def

subsection \<open>The clamp of a negative intermediate value\<close>

text \<open>
  The test \<open>if (temp < 0) temp = 0\<close> is on an unsigned value and never fires: the
  result is always the wrapped difference, plus the rounding bias, shifted.
\<close>

lemma lux_of_temp_no_clamp:
  "lux_of_temp h channel0 channel1 b m =
     drop_bit (TSL2561_LUX_LUXSCALE h)
       (channel0 * b - channel1 * m + push_bit (TSL2561_LUX_LUXSCALE h - 1) 1)"
  by (simp add: lux_of_temp_def)

text \<open>
  Claim C1 says that whenever \<open>channel1 * M\<close> exceeds \<open>channel0 * B\<close> on a non-saturated
  input, the intermediate value is clamped to 0 before the rounding bias is added, so
  that the lux value returned is 0. The code does not do so. With the datasheet
  coefficients of the CS package, at 402 ms and gain 16x, the reading
  \<open>broadband = 20000\<close>, \<open>ir = 26000\<close> is below the clipping threshold, has the ratio
  \<open>0x29a\<close> and so \<open>B = 0x37\<close>, \<open>M = 0x2b\<close>, and \<open>26000 * 0x2b > 20000 * 0x37\<close>; the
  value returned is 262143, the wrapped difference, not 0.
\<close>

theorem calculateLux_negative_wraps:
  "calculateLux datasheet_header PACKAGE_CS sensor_402ms_16x 20000 26000 = Inr 262143
   \<and> \<not> (20000 > clipThreshold datasheet_header (tsl2561IntegrationTime sensor_402ms_16x))
   \<and> \<not> (26000 > clipThreshold datasheet_header (tsl2561IntegrationTime sensor_402ms_16x))
   \<and> select_bm (lux_table datasheet_header PACKAGE_CS) (lux_ratio datasheet_header 20000 26000)
        = Some (0x37, 0x2b)
   \<and> (26000 :: nat) * 0x2b > 20000 * 0x37"
  by (simp add: calculateLux_defs datasheet_defs sensor_402ms_16x_defs)

subsection \<open>Saturation\<close>

text \<open>
  Claim C2: for every pair \<open>(broadband, ir)\<close> in which either value is strictly above
  the clipping threshold selected by the current integration time, \<open>calculateLux\<close>
  returns the saturation sentinel 65536, which is not the value 0 of a 0-lux reading.
  The threshold is \<open>TSL2561_CLIPPING_13MS\<close> at 13 ms, \<open>TSL2561_CLIPPING_101MS\<close> at
  101 ms and \<open>TSL2561_CLIPPING_402MS\<close> at 402 ms.
\<close>

theorem calculateLux_saturated:
  fixes h :: tsl2561_header and d :: tsl2561
  defines "threshold \<equiv>
     (case tsl2561IntegrationTime d of
        TSL2561_INTEGRATIONTIME_13MS \<Rightarrow> TSL2561_CLIPPING_13MS h
      | TSL2561_INTEGRATIONTIME_101MS \<Rightarrow> TSL2561_CLIPPING_101MS h
      | TSL2561_INTEGRATIONTIME_402MS \<Rightarrow> TSL2561_CLIPPING_402MS h)"
  assumes "broadband > threshold \<or> ir > threshold"
  shows "calculateLux h pkg d broadband ir = Inr 65536 \<and> (65536 :: 32 word) \<noteq> 0"
proof -
  have "clipThreshold h (tsl2561IntegrationTime d) = threshold"
    by (cases "tsl2561IntegrationTime d") (simp_all add: clipThreshold_def threshold_def)
  with assms(2) show ?thesis by (simp add: calculateLux_def)
qed

text \<open>
  At 13 ms the reading 4901 is saturated, at 101 ms the reading 37001, at 402 ms the
  reading 65001; the first two are below the thresholds of the longer times.
\<close>

theorem calculateLux_saturated_witness:
  "tsl2561IntegrationTime sensor_13ms = TSL2561_INTEGRATIONTIME_13MS
   \<and> 4901 > TSL2561_CLIPPING_13MS datasheet_header
   \<and> calculateLux datasheet_header PACKAGE_T_FN_CL sensor_13ms 4901 30 = Inr 65536
   \<and> tsl2561IntegrationTime sensor_101ms = TSL2561_INTEGRATIONTIME_101MS
   \<and> 37001 > TSL2561_CLIPPING_101MS datasheet_header
   \<and> calculateLux datasheet_header PACKAGE_T_FN_CL sensor_101ms 30 37001 = Inr 65536
   \<and> tsl2561IntegrationTime sensor_402ms_16x = TSL2561_INTEGRATIONTIME_402MS
   \<and> 65001 > TSL2561_CLIPPING_402MS datasheet_header
   \<and> calculateLux datasheet_header PACKAGE_CS sensor_402ms_16x 65001 30 = Inr 65536
   \<and> (65536 :: 32 word) \<noteq> 0"
proof -
  have t: "tsl2561IntegrationTime sensor_13ms = TSL2561_INTEGRATIONTIME_13MS"
    "tsl2561IntegrationTime sensor_101ms = TSL2561_INTEGRATIONTIME_101MS"
    "tsl2561IntegrationTime sensor_402ms_16x = TSL2561_INTEGRATIONTIME_402MS"
    by (simp_all add: sensor_13ms_def sensor_101ms_def sensor_402ms_16x_defs)
  have c: "4901 > TSL2561_CLIPPING_13MS datasheet_header"
    "37001 > TSL2561_CLIPPING_101MS datasheet_header"
    "65001 > TSL2561_CLIPPING_402MS datasheet_header"
    by (simp_all add: datasheet_header_def)
  from calculateLux_saturated
         [where h = datasheet_header and d = sensor_13ms and broadband = 4901 and ir = 30
            and pkg = PACKAGE_T_FN_CL]
    calculateLux_saturated
         [where h = datasheet_header and d = sensor_101ms and broadband = 30 and ir = 37001
            and pkg = PACKAGE_T_FN_CL]
    calculateLux_saturated
         [where h = datasheet_header and d = sensor_402ms_16x and broadband = 65001 and ir = 30
            and pkg = PACKAGE_CS]
    t c
  show ?thesis by simp
qed

subsection \<open>The breakpoint scan\<close>

lemma select_bm_first_match: "select_bm t r = spec_first_match (spec_brackets t) r"
  by (simp add: select_bm_def spec_brackets_def)

lemma select_bm_index:
  "LUX_K8 t \<le> LUX_K7 t \<Longrightarrow> select_bm t r = Some (coefficients t ! bracket_index t r)"
  by (auto simp: select_bm_def bracket_index_def coefficients_def)

lemma in_bracket_index:
  assumes "sorted (breakpoints t)" "LUX_K8 t \<le> LUX_K7 t"
  shows "in_bracket t (bracket_index t r) r"
  using assms by (auto simp: in_bracket_def bracket_index_def breakpoints_def)

lemma nat_less_8_cases:
  "i < 8 \<Longrightarrow> i = 0 \<or> i = 1 \<or> i = 2 \<or> i = 3 \<or> i = 4 \<or> i = 5 \<or> i = 6 \<or> i = (7::nat)"
  by arith

lemma in_bracket_unique:
  assumes "sorted (breakpoints t)" "LUX_K8 t \<le> LUX_K7 t" "in_bracket t i r"
  shows "i = bracket_index t r"
proof -
  have "i < 8" using assms(3) by (auto simp: in_bracket_def split: if_splits)
  from nat_less_8_cases [OF this] assms show ?thesis
    by (elim disjE) (auto simp: in_bracket_def bracket_index_def breakpoints_def)
qed

text \<open>
  The chain ends in \<open>else if (ratio > K8)\<close>, not in \<open>else\<close>. Were \<open>K8\<close> above \<open>K7\<close>, a
  ratio between them would meet no condition and leave \<open>b\<close> and \<open>m\<close> unassigned.
\<close>

lemma select_bm_gap:
  assumes "sorted (breakpoints t)" "LUX_K7 t < r" "r \<le> LUX_K8 t"
  shows "select_bm t r = None"
  using assms by (auto simp: select_bm_def breakpoints_def)

text \<open>
  Claim C8: for every ratio the scan selects exactly one pair \<open>(b, m)\<close>: the brackets
  are exhaustive and do not overlap, \<open>b\<close> and \<open>m\<close> are always assigned, and the pair
  taken is that of the first matching condition in least-to-greatest order. The
  breakpoints are macros of the absent header; the theorem needs them ascending, as
  the spec describes them, with \<open>K8\<close> not above \<open>K7\<close> (both are the ratio 1.30 in
  the formulae quoted in \<open>calculateRawCH0\<close>). The ratio is unsigned, so every value
  of its type is in \<open>[0, \<infinity>)\<close>.
\<close>

theorem breakpoint_scan_selects_one_bracket:
  assumes "sorted (breakpoints t)" and "LUX_K8 t \<le> LUX_K7 t"
  shows "(\<exists>!i. in_bracket t i ratio)
       \<and> (\<forall>i. in_bracket t i ratio \<longrightarrow> select_bm t ratio = Some (coefficients t ! i))
       \<and> select_bm t ratio = spec_first_match (spec_brackets t) ratio"
proof (intro conjI allI impI)
  show "\<exists>!i. in_bracket t i ratio"
  proof (rule ex1I)
    show "in_bracket t (bracket_index t ratio) ratio"
      using assms by (rule in_bracket_index)
  next
    fix i assume "in_bracket t i ratio"
    with assms show "i = bracket_index t ratio" by (rule in_bracket_unique)
  qed
next
  fix i assume "in_bracket t i ratio"
  with assms have "i = bracket_index t ratio" by (rule in_bracket_unique)
  with assms(2) show "select_bm t ratio = Some (coefficients t ! i)"
    by (simp add: select_bm_index)
next
  show "select_bm t ratio = spec_first_match (spec_brackets t) ratio"
    by (rule select_bm_first_match)
qed

theorem breakpoint_scan_selects_one_bracket_witness:
  "sorted (breakpoints datasheet_table_T)
   \<and> LUX_K8 datasheet_table_T \<le> LUX_K7 datasheet_table_T
   \<and> in_bracket datasheet_table_T 4 300
   \<and> select_bm datasheet_table_T 300 = Some (0x016f, 0x01fc)
   \<and> spec_first_match (spec_brackets datasheet_table_T) 300 = Some (0x016f, 0x01fc)"
proof -
  have s: "sorted (breakpoints datasheet_table_T)"
    by (simp add: breakpoints_def datasheet_table_T_def)
  have k: "LUX_K8 datasheet_table_T \<le> LUX_K7 datasheet_table_T"
    by (simp add: datasheet_table_T_def)
  have b: "in_bracket datasheet_table_T 4 300"
    by (simp add: in_bracket_def breakpoints_def datasheet_table_T_def)
  have c: "coefficients datasheet_table_T ! 4 = (0x016f, 0x01fc)"
    by (simp add: coefficients_def datasheet_table_T_def)
  from breakpoint_scan_selects_one_bracket [OF s k, of 300] b c s k show ?thesis
    by metis
qed

subsection \<open>The channel ratio\<close>

lemma unat_push_bit_no_overflow:
  fixes w :: "32 word"
  assumes "unat w * 2 ^ n < 2 ^ 32"
  shows "unat (push_bit n w) = unat w * 2 ^ n"
proof -
  have "unat (push_bit n w) = take_bit 32 (push_bit n (unat w))"
    by (simp add: unsigned_push_bit_eq)
  also have "\<dots> = push_bit n (unat w)"
    using assms by (simp add: take_bit_nat_eq_self push_bit_eq_mult)
  finally show ?thesis by (simp add: push_bit_eq_mult)
qed

lemma unat_drop_bit_div: "unat (drop_bit n w) = unat w div 2 ^ n"
  by (subst unat_drop_bit_eq) (rule drop_bit_eq_div)

text \<open>Adding 1 to the doubled quotient and halving rounds the quotient half-up.\<close>

lemma half_up_nat:
  fixes a c :: nat
  assumes "0 < c"
  shows "((2 * a) div c + 1) div 2 = (2 * a + c) div (2 * c)"
proof -
  have "(2 * a) div c + 1 = (2 * a + c) div c" using assms by simp
  then have "((2 * a) div c + 1) div 2 = ((2 * a + c) div c) div 2" by simp
  also have "\<dots> = (2 * a + c) div (c * 2)" by (simp add: div_mult2_eq)
  finally show ?thesis by (simp add: mult.commute)
qed

text \<open>As long as the left shift of \<open>channel1\<close> does not overflow, no step of the ratio wraps.\<close>

lemma unat_lux_ratio:
  assumes "unat channel1 * 2 ^ (TSL2561_LUX_RATIOSCALE h + 1) < 2 ^ 32"
  shows "unat (lux_ratio h channel0 channel1) =
           (if channel0 = 0 then 0
            else (unat channel1 * 2 ^ (TSL2561_LUX_RATIOSCALE h + 1) div unat channel0 + 1) div 2)"
proof (cases "channel0 = 0")
  case True
  then show ?thesis by (simp add: lux_ratio_def)
next
  case False
  let ?n = "unat channel1 * 2 ^ (TSL2561_LUX_RATIOSCALE h + 1)"
  let ?q = "push_bit (TSL2561_LUX_RATIOSCALE h + 1) channel1 div channel0"
  have q: "unat ?q = ?n div unat channel0"
    using assms by (simp only: unat_div unat_push_bit_no_overflow)
  have even: "even ?n" by simp
  have "?n div unat channel0 \<le> ?n" by simp
  then have le: "unat ?q + 1 \<le> 2 ^ 32" using assms q by linarith
  have "unat ?q + 1 \<noteq> 2 ^ 32"
  proof
    assume eq: "unat ?q + 1 = 2 ^ 32"
    then have "?n div unat channel0 = 2 ^ 32 - 1" using q by simp
    moreover have "?n div unat channel0 \<le> ?n" by simp
    ultimately have "?n = 2 ^ 32 - 1" using assms by linarith
    then have "odd ?n" by simp
    with even show False by blast
  qed
  with le have "unat ?q + 1 < 2 ^ 32" by linarith
  then have "unat (?q + 1) = unat ?q + 1"
    by (simp add: unat_add_lem [THEN iffD1])
  then have "unat (drop_bit 1 (?q + 1)) = (unat ?q + 1) div 2"
    by (simp only: unat_drop_bit_div power_one_right)
  with False q show ?thesis
    by (simp only: lux_ratio_def Let_def if_True if_False simp_thms)
qed

text \<open>
  A scaled channel has lost its low \<open>TSL2561_LUX_CHSCALE\<close> bits, so shifting it left
  by at most that many bits cannot overflow.
\<close>

lemma scale_channel_bound:
  "unat (scale_channel h cs raw) * 2 ^ TSL2561_LUX_CHSCALE h < 2 ^ 32"
proof -
  let ?w = "ucast raw * cs :: 32 word"
  have "unat (scale_channel h cs raw) = unat ?w div 2 ^ TSL2561_LUX_CHSCALE h"
    by (simp only: scale_channel_def unat_drop_bit_div)
  then have "unat (scale_channel h cs raw) * 2 ^ TSL2561_LUX_CHSCALE h \<le> unat ?w"
    by simp
  moreover have "unat ?w < 2 ^ 32" using unsigned_less [of ?w] by simp
  ultimately show ?thesis by linarith
qed

lemma scale_channel_no_overflow:
  assumes "TSL2561_LUX_RATIOSCALE h + 1 \<le> TSL2561_LUX_CHSCALE h"
  shows "unat (scale_channel h cs raw) * 2 ^ (TSL2561_LUX_RATIOSCALE h + 1) < 2 ^ 32"
proof -
  have "(2::nat) ^ (TSL2561_LUX_RATIOSCALE h + 1) \<le> 2 ^ TSL2561_LUX_CHSCALE h"
    using assms by (intro power_increasing) simp_all
  then have "unat (scale_channel h cs raw) * 2 ^ (TSL2561_LUX_RATIOSCALE h + 1)
      \<le> unat (scale_channel h cs raw) * 2 ^ TSL2561_LUX_CHSCALE h"
    by (rule mult_le_mono2)
  with scale_channel_bound [of h cs raw] show ?thesis by linarith
qed

text \<open>
  Claim C9: the ratio is \<open>(channel1 << (RATIOSCALE+1)) / channel0\<close> in integer
  division, 0 when \<open>channel0\<close> is 0, then rounded half-up by adding 1 and halving; when
  the scaled channels are equal and not 0 the rounded ratio is \<open>2^RATIOSCALE\<close>, the
  fixed-point 1.0. The channels are the scaled inputs of \<open>calculateLux\<close>, for any
  channel scale. The shift amounts are macros of the absent header; the arithmetic
  is free of wrap-around when \<open>RATIOSCALE + 1 \<le> CHSCALE\<close> (9 and 10 in the datasheet).
  The second conjunct says what the first computes: the quotient
  \<open>channel1 * 2^RATIOSCALE / channel0\<close> rounded to the nearest integer, halves up.
\<close>

theorem lux_ratio_rounds_half_up:
  fixes h :: tsl2561_header and chScale :: "32 word" and broadband ir :: "16 word"
  defines "channel0 \<equiv> scale_channel h chScale broadband"
    and "channel1 \<equiv> scale_channel h chScale ir"
  assumes scales: "TSL2561_LUX_RATIOSCALE h + 1 \<le> TSL2561_LUX_CHSCALE h"
  shows "unat (lux_ratio h channel0 channel1) =
           (if channel0 = 0 then 0
            else (unat channel1 * 2 ^ (TSL2561_LUX_RATIOSCALE h + 1) div unat channel0 + 1) div 2)
         \<and> (channel0 \<noteq> 0 \<longrightarrow>
              unat (lux_ratio h channel0 channel1) =
                (2 * (unat channel1 * 2 ^ TSL2561_LUX_RATIOSCALE h) + unat channel0)
                  div (2 * unat channel0))
         \<and> (channel1 = channel0 \<and> channel0 \<noteq> 0 \<longrightarrow>
              unat (lux_ratio h channel0 channel1) = 2 ^ TSL2561_LUX_RATIOSCALE h)"
proof -
  have no: "unat channel1 * 2 ^ (TSL2561_LUX_RATIOSCALE h + 1) < 2 ^ 32"
    unfolding channel1_def using scales by (rule scale_channel_no_overflow)
  note r = unat_lux_ratio [OF no, of channel0]
  have pos: "channel0 \<noteq> 0 \<Longrightarrow> 0 < unat channel0" by (simp add: unat_gt_0)
  have a: "channel0 \<noteq> 0 \<Longrightarrow> unat (lux_ratio h channel0 channel1) =
                (2 * (unat channel1 * 2 ^ TSL2561_LUX_RATIOSCALE h) + unat channel0)
                  div (2 * unat channel0)"
    using r pos half_up_nat [of "unat channel0" "unat channel1 * 2 ^ TSL2561_LUX_RATIOSCALE h"]
    by (simp add: mult.assoc mult.left_commute)
  have b: "unat (lux_ratio h channel0 channel1) = 2 ^ TSL2561_LUX_RATIOSCALE h"
    if e: "channel1 = channel0" and nz: "channel0 \<noteq> 0"
  proof -
    let ?c = "unat channel0" and ?p = "(2::nat) ^ TSL2561_LUX_RATIOSCALE h"
    have "(2 * (?c * ?p) + ?c) div (2 * ?c) = (?c * (2 * ?p + 1)) div (?c * 2)"
      by (simp add: algebra_simps)
    also have "\<dots> = (2 * ?p + 1) div 2"
      using pos [OF nz] by (simp only: div_mult_mult1 less_numeral_extra(3) neq0_conv)
    also have "\<dots> = ?p" by simp
    finally show ?thesis using a [OF nz] e by simp
  qed
  from r a b show ?thesis by blast
qed

theorem lux_ratio_rounds_half_up_witness:
  "TSL2561_LUX_RATIOSCALE datasheet_header + 1 \<le> TSL2561_LUX_CHSCALE datasheet_header
   \<and> scale_channel datasheet_header 1024 1000 = 1000
   \<and> unat (lux_ratio datasheet_header (scale_channel datasheet_header 1024 1000)
             (scale_channel datasheet_header 1024 1000)) = 512"
proof -
  have s: "TSL2561_LUX_RATIOSCALE datasheet_header + 1 \<le> TSL2561_LUX_CHSCALE datasheet_header"
    by (simp add: datasheet_header_def)
  have c: "scale_channel datasheet_header 1024 1000 = 1000"
    by (simp add: scale_channel_def datasheet_header_def)
  have p: "(2::nat) ^ TSL2561_LUX_RATIOSCALE datasheet_header = 512"
    by (simp add: datasheet_header_def)
  from lux_ratio_rounds_half_up [OF s, of 1024 1000 1000] s c p show ?thesis
    by simp
qed

section \<open>Properties of the acquisition loop\<close>

lemmas bus_defs = bus_def enable_def disable_def
lemmas setter_defs = setIntegrationTime_def setGain_def setIntegrationTime_body_def setGain_body_def
lemmas begin_defs = ensure_begun_def begin_sensor_def init_def

subsection \<open>What the helpers leave unchanged\<close>

lemma ensure_begun_fields [simp]:
  "tsl2561AutoGain (ensure_begun c tr d) = tsl2561AutoGain d"
  "tsl2561Gain (ensure_begun c tr d) = tsl2561Gain d"
  "tsl2561IntegrationTime (ensure_begun c tr d) = tsl2561IntegrationTime d"
  "acquisitions (ensure_begun c tr d) = acquisitions d"
  "allowSleep (ensure_begun c tr d) = allowSleep d"
  by (simp_all add: begin_defs setIntegrationTime_body_def setGain_body_def Let_def bus_defs)

lemma getData_fields [simp]:
  "fst (getData tr d) = channels tr (acquisitions d)"
  "tsl2561AutoGain (snd (getData tr d)) = tsl2561AutoGain d"
  "tsl2561Gain (snd (getData tr d)) = tsl2561Gain d"
  "tsl2561IntegrationTime (snd (getData tr d)) = tsl2561IntegrationTime d"
  "acquisitions (snd (getData tr d)) = acquisitions d + 1"
  "allowSleep (snd (getData tr d)) = allowSleep d"
  "tsl2561Initialised (snd (getData tr d)) = tsl2561Initialised d"
  by (simp_all add: getData_def Let_def bus_defs)

lemma setGain_fields [simp]:
  "tsl2561AutoGain (setGain c tr g d) = tsl2561AutoGain d"
  "tsl2561Gain (setGain c tr g d) = g"
  "tsl2561IntegrationTime (setGain c tr g d) = tsl2561IntegrationTime d"
  "acquisitions (setGain c tr g d) = acquisitions d"
  "allowSleep (setGain c tr g d) = allowSleep d"
  by (simp_all add: setGain_def setGain_body_def Let_def bus_defs)

lemma getData_log: "set (bus_log d) \<subseteq> set (bus_log (snd (getData tr d)))"
  by (auto simp: getData_def Let_def bus_defs)

lemma setGain_log:
  "WriteTiming (tsl2561IntegrationTime d) g \<in> set (bus_log (setGain c tr g d))"
  by (simp add: setGain_def setGain_body_def Let_def bus_defs)

text \<open>The transport's channel answers matter to \<open>getData\<close> only, and only for its reading.\<close>

lemma getData_snd_channels: "snd (getData (tr\<lparr>channels := chans\<rparr>) d) = snd (getData tr d)"
  by (simp add: getData_def Let_def)

lemma ensure_begun_channels: "ensure_begun c (tr\<lparr>channels := chans\<rparr>) d = ensure_begun c tr d"
  by (simp add: begin_defs Let_def)

lemma setGain_channels: "setGain c (tr\<lparr>channels := chans\<rparr>) g d = setGain c tr g d"
  by (simp add: setGain_def ensure_begun_channels)

subsection \<open>The loop unfolded\<close>

lemma agc_body_progress:
  "\<not> valid (agc_body c h tr s) \<Longrightarrow> agcCheck (agc_body c h tr s) \<and> \<not> agcCheck s"
  by (auto simp: agc_body_def Let_def case_prod_beta split: if_splits)

lemma agc_loop_checked: "agcCheck s \<Longrightarrow> agc_loop c h tr s = agc_body c h tr s"
  by (subst agc_loop.simps) (simp add: agc_body_def Let_def case_prod_beta)

lemma agc_loop_unchecked:
  assumes "\<not> agcCheck s"
  shows "agc_loop c h tr s =
           (let s' = agc_body c h tr s in if valid s' then s' else agc_body c h tr s')"
proof (cases "valid (agc_body c h tr s)")
  case True
  then show ?thesis by (subst agc_loop.simps) (simp add: Let_def)
next
  case False
  then have "agcCheck (agc_body c h tr s)" by (simp add: agc_body_progress)
  then have "agc_loop c h tr (agc_body c h tr s) = agc_body c h tr (agc_body c h tr s)"
    by (rule agc_loop_checked)
  with False show ?thesis by (subst agc_loop.simps) (simp add: Let_def)
qed

lemma agc_body_unfold:
  "agc_body c h tr s =
     (let d = snd (getData tr (sensor s)); r = channels tr (acquisitions (sensor s)) in
      if agcCheck s then s\<lparr>sensor := d, stored := Some r, valid := True\<rparr>
      else case spec_gain_adjustment h tr (sensor s) of
          None \<Rightarrow> s\<lparr>sensor := d, stored := Some r, valid := True\<rparr>
        | Some g \<Rightarrow> s\<lparr>sensor := snd (getData tr (setGain c tr g d)), agcCheck := True\<rparr>)"
  by (simp add: agc_body_def spec_gain_adjustment_def Let_def case_prod_beta)

lemma spec_gain_adjustment_ensure_begun:
  "spec_gain_adjustment h tr (ensure_begun c tr d) = spec_gain_adjustment h tr d"
  by (simp add: spec_gain_adjustment_def case_prod_beta)

lemma getLuminosity_unfold:
  "getLuminosity c h tr d =
    (let d1 = snd (getData tr (ensure_begun c tr d)) in
     if tsl2561AutoGain d then
       (case spec_gain_adjustment h tr d of
         None \<Rightarrow> (Some (channels tr (acquisitions d)), d1)
       | Some g \<Rightarrow> (Some (channels tr (acquisitions d + 2)),
                    snd (getData tr (snd (getData tr (setGain c tr g d1))))))
     else (Some (channels tr (acquisitions d)), d1))"
  by (simp add: getLuminosity_def Let_def agc_loop_unchecked case_prod_beta
      agc_body_unfold spec_gain_adjustment_ensure_begun split: option.splits)

lemma getLuminosity_adjusted:
  assumes "tsl2561AutoGain d" and "spec_gain_adjustment h tr d = Some g"
  shows "getLuminosity c h tr d =
           (Some (channels tr (acquisitions d + 2)),
            snd (getData tr (snd (getData tr (setGain c tr g (snd (getData tr (ensure_begun c tr d))))))))"
  using assms by (simp add: getLuminosity_unfold Let_def)


text \<open>
  Claim C3: for every sequence of readings the transport may return, the acquisition
  loop of \<open>getLuminosity\<close> terminates after at most three calls of \<open>getData\<close>: one when
  auto-gain is disabled or no gain adjustment is made, three when the gain is
  adjusted. The loop is the total function \<open>agc_loop\<close>; \<open>acquisitions\<close> counts the
  calls of \<open>getData\<close>, and a reading is always stored.
\<close>

theorem getLuminosity_acquisitions:
  "acquisitions (snd (getLuminosity c h tr d)) =
     acquisitions d + (if tsl2561AutoGain d \<and> spec_gain_adjustment h tr d \<noteq> None then 3 else 1)
   \<and> acquisitions (snd (getLuminosity c h tr d)) \<le> acquisitions d + 3
   \<and> fst (getLuminosity c h tr d) \<noteq> None"
  by (simp add: getLuminosity_unfold Let_def split: option.splits)

lemmas sample_defs =
  dim_then_bright_def bright_then_dim_def steady_light_def auto_sensor_def auto_sensor_16x_def
  Adafruit_TSL2561_Unified_def

lemma sample_adjustments:
  "spec_gain_adjustment datasheet_header dim_then_bright auto_sensor = Some TSL2561_GAIN_16X"
  "spec_gain_adjustment datasheet_header bright_then_dim auto_sensor_16x = Some TSL2561_GAIN_1X"
  "spec_gain_adjustment datasheet_header steady_light auto_sensor = None"
  by (simp_all add: spec_gain_adjustment_def agc_thresholds_def datasheet_header_def sample_defs)

theorem getLuminosity_acquisitions_witness:
  "acquisitions (snd (getLuminosity Second_copy datasheet_header dim_then_bright auto_sensor)) = 3
   \<and> acquisitions (snd (getLuminosity Second_copy datasheet_header steady_light auto_sensor)) = 1
   \<and> acquisitions (snd (getLuminosity Second_copy datasheet_header dim_then_bright
        (Adafruit_TSL2561_Unified True))) = 1"
  using getLuminosity_acquisitions [of Second_copy datasheet_header dim_then_bright auto_sensor]
    getLuminosity_acquisitions [of Second_copy datasheet_header steady_light auto_sensor]
    getLuminosity_acquisitions
      [of Second_copy datasheet_header dim_then_bright "Adafruit_TSL2561_Unified True"]
  by (simp add: sample_adjustments) (simp add: sample_defs)

text \<open>
  Claim C4: with auto-gain enabled, on the first pass of the loop: a broadband
  reading below the low threshold of the integration time at gain 1x switches the
  gain to 16x; one above the high threshold at gain 16x switches it to 1x; in every
  other case the first reading is accepted as final and returned unchanged. The
  thresholds are \<open>TSL2561_AGC_TLO_13MS\<close> and \<open>TSL2561_AGC_THI_13MS\<close> at 13 ms,
  \<open>TSL2561_AGC_TLO_101MS\<close> and \<open>TSL2561_AGC_THI_101MS\<close> at 101 ms,
  \<open>TSL2561_AGC_TLO_402MS\<close> and \<open>TSL2561_AGC_THI_402MS\<close> at 402 ms. The new gain is
  both stored in the object and written to the timing register.
\<close>

theorem first_pass_gain_policy:
  fixes c :: source_copy and h :: tsl2561_header and tr :: transport and d :: tsl2561
  defines "lo \<equiv>
     (case tsl2561IntegrationTime d of
        TSL2561_INTEGRATIONTIME_13MS \<Rightarrow> TSL2561_AGC_TLO_13MS h
      | TSL2561_INTEGRATIONTIME_101MS \<Rightarrow> TSL2561_AGC_TLO_101MS h
      | TSL2561_INTEGRATIONTIME_402MS \<Rightarrow> TSL2561_AGC_TLO_402MS h)"
    and "hi \<equiv>
     (case tsl2561IntegrationTime d of
        TSL2561_INTEGRATIONTIME_13MS \<Rightarrow> TSL2561_AGC_THI_13MS h
      | TSL2561_INTEGRATIONTIME_101MS \<Rightarrow> TSL2561_AGC_THI_101MS h
      | TSL2561_INTEGRATIONTIME_402MS \<Rightarrow> TSL2561_AGC_THI_402MS h)"
    and "b \<equiv> fst (channels tr (acquisitions d))"
  assumes auto: "tsl2561AutoGain d"
  shows "tsl2561Gain (snd (getLuminosity c h tr d)) =
           (if b < lo \<and> tsl2561Gain d = TSL2561_GAIN_1X then TSL2561_GAIN_16X
            else if b > hi \<and> tsl2561Gain d = TSL2561_GAIN_16X then TSL2561_GAIN_1X
            else tsl2561Gain d)
       \<and> (b < lo \<and> tsl2561Gain d = TSL2561_GAIN_1X \<longrightarrow>
            WriteTiming (tsl2561IntegrationTime d) TSL2561_GAIN_16X
              \<in> set (bus_log (snd (getLuminosity c h tr d))))
       \<and> (b > hi \<and> tsl2561Gain d = TSL2561_GAIN_16X \<longrightarrow>
            WriteTiming (tsl2561IntegrationTime d) TSL2561_GAIN_1X
              \<in> set (bus_log (snd (getLuminosity c h tr d))))
       \<and> (\<not> (b < lo \<and> tsl2561Gain d = TSL2561_GAIN_1X) \<and>
          \<not> (b > hi \<and> tsl2561Gain d = TSL2561_GAIN_16X) \<longrightarrow>
            fst (getLuminosity c h tr d) = Some (channels tr (acquisitions d)) \<and>
            acquisitions (snd (getLuminosity c h tr d)) = acquisitions d + 1)"
proof -
  have th: "agc_thresholds h (tsl2561IntegrationTime d) = (hi, lo)"
    by (cases "tsl2561IntegrationTime d") (simp_all add: agc_thresholds_def hi_def lo_def)
  have adj: "spec_gain_adjustment h tr d =
      (if b < lo \<and> tsl2561Gain d = TSL2561_GAIN_1X then Some TSL2561_GAIN_16X
       else if b > hi \<and> tsl2561Gain d = TSL2561_GAIN_16X then Some TSL2561_GAIN_1X
       else None)"
    by (simp add: spec_gain_adjustment_def th case_prod_beta b_def)
  have wr: "WriteTiming (tsl2561IntegrationTime d) g \<in> set (bus_log (snd (getLuminosity c h tr d)))"
    if "spec_gain_adjustment h tr d = Some g" for g
  proof -
    let ?d1 = "snd (getData tr (ensure_begun c tr d))"
    have "WriteTiming (tsl2561IntegrationTime d) g \<in> set (bus_log (setGain c tr g ?d1))"
      using setGain_log [of ?d1 g c tr] by simp
    then have "WriteTiming (tsl2561IntegrationTime d) g
        \<in> set (bus_log (snd (getData tr (snd (getData tr (setGain c tr g ?d1))))))"
      using getData_log by blast
    then show ?thesis by (simp add: getLuminosity_adjusted [OF auto that])
  qed
  show ?thesis
    using auto wr by (simp add: getLuminosity_unfold Let_def adj)
qed

text \<open>
  At 13 ms: the reading 50 at gain 1x switches to 16x, the reading 5000 at gain 16x
  switches to 1x, the reading 1000 is accepted. At 402 ms: the reading 300 at gain 1x
  is below \<open>TSL2561_AGC_TLO_402MS\<close> only and switches to 16x, the reading 36500 at
  gain 16x is accepted. At 101 ms: the reading 36500 at gain 16x is above
  \<open>TSL2561_AGC_THI_101MS\<close> and switches to 1x.
\<close>

theorem first_pass_gain_policy_witness:
  "tsl2561AutoGain auto_sensor \<and> tsl2561AutoGain auto_sensor_16x
   \<and> tsl2561AutoGain auto_sensor_402ms \<and> tsl2561AutoGain auto_sensor_402ms_16x
   \<and> tsl2561AutoGain auto_sensor_101ms_16x
   \<and> tsl2561Gain (snd (getLuminosity Second_copy datasheet_header dim_then_bright auto_sensor))
       = TSL2561_GAIN_16X
   \<and> WriteTiming TSL2561_INTEGRATIONTIME_13MS TSL2561_GAIN_16X
       \<in> set (bus_log (snd (getLuminosity Second_copy datasheet_header dim_then_bright auto_sensor)))
   \<and> tsl2561Gain (snd (getLuminosity Second_copy datasheet_header bright_then_dim auto_sensor_16x))
       = TSL2561_GAIN_1X
   \<and> WriteTiming TSL2561_INTEGRATIONTIME_13MS TSL2561_GAIN_1X
       \<in> set (bus_log (snd (getLuminosity Second_copy datasheet_header bright_then_dim auto_sensor_16x)))
   \<and> fst (getLuminosity Second_copy datasheet_header steady_light auto_sensor) = Some (1000, 200)
   \<and> tsl2561Gain (snd (getLuminosity Second_copy datasheet_header steady_light auto_sensor))
       = TSL2561_GAIN_1X
   \<and> tsl2561Gain (snd (getLuminosity Second_copy datasheet_header dusk_light auto_sensor_402ms))
       = TSL2561_GAIN_16X
   \<and> WriteTiming TSL2561_INTEGRATIONTIME_402MS TSL2561_GAIN_16X
       \<in> set (bus_log (snd (getLuminosity Second_copy datasheet_header dusk_light auto_sensor_402ms)))
   \<and> fst (getLuminosity Second_copy datasheet_header dusk_light auto_sensor) = Some (300, 60)
   \<and> fst (getLuminosity Second_copy datasheet_header glare auto_sensor_402ms_16x)
       = Some (36500, 7000)
   \<and> tsl2561Gain (snd (getLuminosity Second_copy datasheet_header glare auto_sensor_402ms_16x))
       = TSL2561_GAIN_16X
   \<and> tsl2561Gain (snd (getLuminosity Second_copy datasheet_header glare auto_sensor_101ms_16x))
       = TSL2561_GAIN_1X
   \<and> WriteTiming TSL2561_INTEGRATIONTIME_101MS TSL2561_GAIN_1X
       \<in> set (bus_log (snd (getLuminosity Second_copy datasheet_header glare auto_sensor_101ms_16x)))"
proof -
  note more_defs = dusk_light_def glare_def auto_sensor_402ms_def auto_sensor_402ms_16x_def
    auto_sensor_101ms_16x_def
  have a: "tsl2561AutoGain auto_sensor" and b: "tsl2561AutoGain auto_sensor_16x"
    and a4: "tsl2561AutoGain auto_sensor_402ms" and b4: "tsl2561AutoGain auto_sensor_402ms_16x"
    and b1: "tsl2561AutoGain auto_sensor_101ms_16x"
    by (simp_all add: sample_defs more_defs)
  from first_pass_gain_policy [OF a, where c = Second_copy and h = datasheet_header
        and tr = dim_then_bright]
    first_pass_gain_policy [OF b, where c = Second_copy and h = datasheet_header
        and tr = bright_then_dim]
    first_pass_gain_policy [OF a, where c = Second_copy and h = datasheet_header
        and tr = steady_light]
    first_pass_gain_policy [OF a4, where c = Second_copy and h = datasheet_header
        and tr = dusk_light]
    first_pass_gain_policy [OF a, where c = Second_copy and h = datasheet_header
        and tr = dusk_light]
    first_pass_gain_policy [OF b4, where c = Second_copy and h = datasheet_header
        and tr = glare]
    first_pass_gain_policy [OF b1, where c = Second_copy and h = datasheet_header
        and tr = glare]
    a b a4 b4 b1
  show ?thesis
    by (simp add: datasheet_header_def sample_defs more_defs)
qed

text \<open>
  Claim C10: with auto-gain enabled, when the gain is adjusted, the reading taken
  right after the new gain is written (the second acquisition) is discarded: the
  value returned is that of a third acquisition, taken on the next pass of the loop
  and accepted whatever it is. The last conjunct says that the second reading has
  no effect at all: replacing it by any other value \<open>v\<close> changes nothing.
\<close>

theorem adjusted_reading_is_third_acquisition:
  assumes "tsl2561AutoGain d" and "spec_gain_adjustment h tr d \<noteq> None"
  shows "fst (getLuminosity c h tr d) = Some (channels tr (acquisitions d + 2))
       \<and> acquisitions (snd (getLuminosity c h tr d)) = acquisitions d + 3
       \<and> getLuminosity c h (tr\<lparr>channels := (channels tr)(acquisitions d + 1 := v)\<rparr>) d
           = getLuminosity c h tr d"
proof -
  let ?tr = "tr\<lparr>channels := (channels tr)(acquisitions d + 1 := v)\<rparr>"
  from assms(2) obtain g where g: "spec_gain_adjustment h tr d = Some g" by blast
  have g': "spec_gain_adjustment h ?tr d = Some g"
    using g by (simp add: spec_gain_adjustment_def)
  note L = getLuminosity_adjusted [OF assms(1) g]
  have "getLuminosity c h ?tr d = getLuminosity c h tr d"
    unfolding L getLuminosity_adjusted [OF assms(1) g']
    by (simp add: ensure_begun_channels setGain_channels getData_snd_channels)
  then show ?thesis by (simp add: L)
qed


theorem adjusted_reading_is_third_acquisition_witness:
  "tsl2561AutoGain auto_sensor
   \<and> spec_gain_adjustment datasheet_header dim_then_bright auto_sensor \<noteq> None
   \<and> channels dim_then_bright 1 = (700, 140)
   \<and> fst (getLuminosity Second_copy datasheet_header dim_then_bright auto_sensor) = Some (800, 160)
   \<and> acquisitions (snd (getLuminosity Second_copy datasheet_header dim_then_bright auto_sensor)) = 3"
proof -
  have a: "tsl2561AutoGain auto_sensor" by (simp add: sample_defs)
  have g: "spec_gain_adjustment datasheet_header dim_then_bright auto_sensor \<noteq> None"
    by (simp add: sample_adjustments)
  from adjusted_reading_is_third_acquisition [OF a g, where c = Second_copy and v = "(0, 0)"] a g
  show ?thesis
    by (simp add: sample_defs)
qed

section \<open>Properties of initialisation and the setters\<close>

lemma init_results:
  "fst (init First_copy tr d) = (id_byte tr (id_reads d) AND 0x0A \<noteq> 0)"
  "fst (init Second_copy tr d) = (id_byte tr (id_reads d) AND 0x05 = 0)"
  by (simp_all add: init_def probe_fails_def Let_def)


text \<open>
  Claim C5: the two copies of \<open>init\<close> test the ID byte differently, one fails on
  \<open>!(x & 0x0A)\<close>, the other on \<open>x & 0x05\<close>, and they are not equivalent: there is an ID
  byte for which one copy reports success and the other failure. The byte 0 is one:
  the first copy fails on it and the second succeeds, in every state.
\<close>

theorem init_copies_differ:
  "\<exists>x. \<forall>tr d. \<not> fst (init First_copy (tr\<lparr>id_byte := \<lambda>n. x\<rparr>) d)
              \<and> fst (init Second_copy (tr\<lparr>id_byte := \<lambda>n. x\<rparr>) d)"
  by (rule exI [of _ 0]) (simp add: init_results)

lemma begin_sensor_log:
  "\<exists>rest. bus_log (snd (begin_sensor c tr d)) = bus_log d @ WireBegin # ReadID # rest"
  by (simp add: begin_defs Let_def bus_defs setIntegrationTime_body_def setGain_body_def)

lemma begin_sensor_fields [simp]:
  "tsl2561Gain (snd (begin_sensor c tr d)) = tsl2561Gain d"
  "tsl2561IntegrationTime (snd (begin_sensor c tr d)) = tsl2561IntegrationTime d"
  "allowSleep (snd (begin_sensor c tr d)) = allowSleep d"
  "id_reads (snd (begin_sensor c tr d)) = id_reads d + 1"
  by (simp_all add: begin_defs Let_def bus_defs setIntegrationTime_body_def setGain_body_def)


text \<open>
  Claim C6 says that each of \<open>setIntegrationTime\<close>, \<open>setGain\<close> and \<open>enableAutoRange\<close>,
  called on a sensor that is not initialised, first calls \<open>begin\<close>. That fails for
  \<open>enableAutoRange\<close>, which has no such guard in either copy: on a fresh sensor it
  puts nothing on the bus and leaves the sensor uninitialised.
\<close>

theorem enableAutoRange_does_not_begin:
  "\<not> tsl2561Initialised (Adafruit_TSL2561_Unified True)
   \<and> \<not> tsl2561Initialised (enableAutoRange True (Adafruit_TSL2561_Unified True))
   \<and> bus_log (enableAutoRange True (Adafruit_TSL2561_Unified True)) = []
   \<and> id_reads (enableAutoRange True (Adafruit_TSL2561_Unified True)) = 0"
  by (simp add: enableAutoRange_def Adafruit_TSL2561_Unified_def)

text \<open>
  Claim C6 as amended: \<open>setIntegrationTime\<close> and \<open>setGain\<close>, called on a sensor that is
  not initialised, first call \<open>begin\<close> (the bus is started and the ID register read)
  and then write their setting; \<open>enableAutoRange\<close> only stores the flag, without
  initialisation or bus traffic.
\<close>

theorem setters_begin_when_uninitialised:
  assumes "\<not> tsl2561Initialised d"
  shows "(\<exists>rest. bus_log (snd (begin_sensor c tr d)) = bus_log d @ WireBegin # ReadID # rest)
       \<and> bus_log (setIntegrationTime c tr time d) =
           bus_log (snd (begin_sensor c tr d))
             @ [PowerOn, WriteTiming time (tsl2561Gain d)]
             @ (if allowSleep d then [PowerOff] else [])
       \<and> tsl2561IntegrationTime (setIntegrationTime c tr time d) = time
       \<and> bus_log (setGain c tr gain d) =
           bus_log (snd (begin_sensor c tr d))
             @ [PowerOn, WriteTiming (tsl2561IntegrationTime d) gain]
             @ (if allowSleep d then [PowerOff] else [])
       \<and> tsl2561Gain (setGain c tr gain d) = gain
       \<and> enableAutoRange en d = d\<lparr>tsl2561AutoGain := en\<rparr>
       \<and> bus_log (enableAutoRange en d) = bus_log d
       \<and> id_reads (enableAutoRange en d) = id_reads d
       \<and> \<not> tsl2561Initialised (enableAutoRange en d)"
proof -
  have e: "ensure_begun c tr d = snd (begin_sensor c tr d)"
    using assms by (simp add: ensure_begun_def)
  have 1: "bus_log (setIntegrationTime c tr time d) =
           bus_log (snd (begin_sensor c tr d))
             @ [PowerOn, WriteTiming time (tsl2561Gain d)]
             @ (if allowSleep d then [PowerOff] else [])"
    by (simp add: setIntegrationTime_def e setIntegrationTime_body_def Let_def bus_defs)
  have 2: "bus_log (setGain c tr gain d) =
           bus_log (snd (begin_sensor c tr d))
             @ [PowerOn, WriteTiming (tsl2561IntegrationTime d) gain]
             @ (if allowSleep d then [PowerOff] else [])"
    by (simp add: setGain_def e setGain_body_def Let_def bus_defs)
  have 3: "tsl2561IntegrationTime (setIntegrationTime c tr time d) = time"
    by (simp add: setIntegrationTime_def setIntegrationTime_body_def Let_def bus_defs)
  have 4: "tsl2561Gain (setGain c tr gain d) = gain"
    by (simp add: setGain_def setGain_body_def Let_def bus_defs)
  from begin_sensor_log [of c tr d] 1 2 3 4 assms show ?thesis
    by (simp add: enableAutoRange_def)
qed


theorem setters_begin_when_uninitialised_witness:
  "\<not> tsl2561Initialised (Adafruit_TSL2561_Unified True)
   \<and> bus_log (setIntegrationTime Second_copy steady_light TSL2561_INTEGRATIONTIME_402MS
        (Adafruit_TSL2561_Unified True)) =
       [WireBegin, ReadID,
        PowerOn, WriteTiming TSL2561_INTEGRATIONTIME_13MS TSL2561_GAIN_1X, PowerOff,
        PowerOn, WriteTiming TSL2561_INTEGRATIONTIME_13MS TSL2561_GAIN_1X, PowerOff,
        PowerOff,
        PowerOn, WriteTiming TSL2561_INTEGRATIONTIME_402MS TSL2561_GAIN_1X, PowerOff]
   \<and> bus_log (enableAutoRange True (Adafruit_TSL2561_Unified True)) = []"
proof -
  have u: "\<not> tsl2561Initialised (Adafruit_TSL2561_Unified True)"
    by (simp add: Adafruit_TSL2561_Unified_def)
  have b: "bus_log (snd (begin_sensor Second_copy steady_light (Adafruit_TSL2561_Unified True))) =
       [WireBegin, ReadID,
        PowerOn, WriteTiming TSL2561_INTEGRATIONTIME_13MS TSL2561_GAIN_1X, PowerOff,
        PowerOn, WriteTiming TSL2561_INTEGRATIONTIME_13MS TSL2561_GAIN_1X, PowerOff,
        PowerOff]"
    by (simp add: begin_defs probe_fails_def Let_def bus_defs setIntegrationTime_body_def
        setGain_body_def steady_light_def Adafruit_TSL2561_Unified_def)
  from setters_begin_when_uninitialised
         [OF u, of Second_copy steady_light TSL2561_INTEGRATIONTIME_402MS TSL2561_GAIN_16X True]
    u b
  show ?thesis by (simp add: Adafruit_TSL2561_Unified_def)
qed

section \<open>Properties of calculateRawCH0\<close>

text \<open>
  No \<open>float\<close> lies strictly between 1.3 and the double nearest to 1.3: a \<open>float\<close> above
  1.3 is at least \<open>10905191 / 2^23\<close>.
\<close>

lemma float32_above_1_30:
  assumes wf: "\<bar>m\<bar> < 2 ^ 24" and gt: "13 / 10 < float_val m e"
  shows "double_1_30 < float_val m e"
proof (cases "0 \<le> e")
  case True
  then have v: "float_val m e = of_int (m * 2 ^ nat e)" by (simp add: float_val_def)
  with gt have "(13 / 10 :: real) < of_int (m * 2 ^ nat e)" by simp
  then have "(1::real) < of_int (m * 2 ^ nat e)" by linarith
  then have "1 < m * 2 ^ nat e" by (simp only: of_int_1_less_iff)
  then have "2 \<le> m * 2 ^ nat e" by linarith
  then have "(2::real) \<le> of_int (m * 2 ^ nat e)" by (simp only: of_int_le_iff [symmetric] of_int_numeral)
  with v show ?thesis by (simp add: double_1_30_def)
next
  case False
  define n where "n = nat (- e)"
  have v: "float_val m e = of_int m / 2 ^ n" using False by (simp add: float_val_def n_def)
  show ?thesis
  proof (cases "n \<le> 23")
    case True
    define k where "k = m * 2 ^ (23 - n)"
    have p: "(2::real) ^ 23 = 2 ^ (23 - n) * 2 ^ n"
      using True by (simp only: power_add [symmetric] le_add_diff_inverse2)
    have "real_of_int k / 2 ^ 23 = (of_int m * 2 ^ (23 - n)) / (2 ^ (23 - n) * 2 ^ n)"
      by (simp only: k_def p of_int_mult of_int_power of_int_numeral)
    also have "\<dots> = of_int m / 2 ^ n" by simp
    finally have vk: "float_val m e = of_int k / 2 ^ 23"
      by (simp only: v)
    with gt have "(13 / 10 :: real) < of_int k / 2 ^ 23" by simp
    then have "(109051904 :: real) < 10 * of_int k" by (simp add: field_simps)
    then have "(of_int 109051904 :: real) < of_int (10 * k)" by simp
    then have "109051904 < 10 * k" by (simp only: of_int_less_iff)
    then have "10905191 \<le> k" by linarith
    then have "(of_int 10905191 :: real) \<le> of_int k" by (simp only: of_int_le_iff)
    then have "(10905191 :: real) / 2 ^ 23 \<le> of_int k / 2 ^ 23"
      by (simp add: divide_right_mono)
    moreover have "double_1_30 < 10905191 / 2 ^ 23" by (simp add: double_1_30_def)
    ultimately show ?thesis using vk by linarith
  next
    case False
    then have "24 \<le> n" by simp
    then have "(2::real) ^ 24 \<le> 2 ^ n" by (intro power_increasing) simp_all
    moreover have "(of_int m :: real) < 2 ^ 24"
    proof -
      have "m < 2 ^ 24" using wf by linarith
      then have "(of_int m :: real) < of_int (2 ^ 24)" by (simp only: of_int_less_iff)
      then show ?thesis by simp
    qed
    ultimately have "(of_int m :: real) < 2 ^ n" by linarith
    then have "float_val m e < 1" by (simp add: v)
    with gt show ?thesis by linarith
  qed
qed


text \<open>
  Claim C7: for every assumed channel ratio strictly greater than 1.30,
  \<open>calculateRawCH0\<close> returns the sentinel \<open>0xFFFF\<close>, for both package variants, whatever
  the lux argument, the integration time and the gain. The ratio is any \<open>float\<close> whose
  value exceeds 1.3, or the positive infinity; the constant \<open>1.30\<close> of the source is
  the double or the float nearest to 1.3.
\<close>

theorem calculateRawCH0_sentinel:
  assumes lit: "double_literal fp (130 / 100) = double_1_30 \<or> double_literal fp (130 / 100) = single_1_30"
    and wf: "is_float32 approxChRatio"
    and gt: "float_gt approxChRatio (13 / 10)"
  shows "calculateRawCH0 fp h pkg d lux approxChRatio = 0xFFFF"
proof -
  have "float_gt approxChRatio (double_literal fp (130 / 100))"
  proof (cases approxChRatio)
    case (Finite m e)
    with wf have m: "\<bar>m\<bar> < 2 ^ 24" by (simp add: is_float32_def)
    from Finite gt have g: "13 / 10 < float_val m e" by (simp add: float_gt_def)
    have "double_1_30 < float_val m e" using m g by (rule float32_above_1_30)
    moreover have "single_1_30 < float_val m e"
    proof -
      have "single_1_30 < 13 / 10" by (simp add: single_1_30_def)
      with g show ?thesis by linarith
    qed
    ultimately show ?thesis using lit Finite by (auto simp: float_gt_def)
  qed (use gt in \<open>simp_all add: float_gt_def\<close>)
  then show ?thesis
    by (cases pkg) (simp_all add: calculateRawCH0_def Let_def)
qed


theorem calculateRawCH0_sentinel_witness:
  "double_literal sample_fpu (130 / 100) = double_1_30
   \<and> is_float32 (Finite 3 (- 1))
   \<and> float_gt (Finite 3 (- 1)) (13 / 10)
   \<and> calculateRawCH0 sample_fpu datasheet_header PACKAGE_CS sensor_402ms_16x 400 (Finite 3 (- 1))
       = 0xFFFF
   \<and> calculateRawCH0 sample_fpu datasheet_header PACKAGE_T_FN_CL sensor_402ms_16x 400
       (Finite 3 (- 1)) = 0xFFFF"
proof -
  have l: "double_literal sample_fpu (130 / 100) = double_1_30
           \<or> double_literal sample_fpu (130 / 100) = single_1_30"
    by (simp add: sample_fpu_def)
  have w: "is_float32 (Finite 3 (- 1))" by (simp add: is_float32_def)
  have g: "float_gt (Finite 3 (- 1)) (13 / 10)" by (simp add: float_gt_def float_val_def)
  from calculateRawCH0_sentinel [OF l w g, of datasheet_header PACKAGE_CS sensor_402ms_16x 400]
    calculateRawCH0_sentinel [OF l w g, of datasheet_header PACKAGE_T_FN_CL sensor_402ms_16x 400]
    w g
  show ?thesis by (simp add: sample_fpu_def)
qed

end
